theory Spec2Isabelle
  imports Complex_Main
begin

section \<open>Weather data pipeline (Weather\_data\_project.py)\<close>

text \<open>
  The script is one linear pipeline: for each city of a fixed registry it asks the
  Open-Meteo API for the current conditions, builds one dictionary per answered city,
  turns the list into a data frame, stops if the frame is empty, otherwise draws a
  six-panel dashboard, saves it and prints summary statistics.

  Typing of the dynamically typed data. A Python dictionary with a fixed set of
  possible keys is a record of optional fields (\<open>None\<close> = the key is absent), so
  \<open>d.get(k, 0)\<close> is a case distinction on the field. The body of a response is a
  JSON object, and a key of its \<open>current\<close> section that is present holds a JSON
  number, as the API documents; the numbers are exact reals (the WMO weather code
  an integer), and the rounding of Python's binary floating point is not part of
  the model. The network is a parameter: a function that gives, for a request,
  either the message of the \<open>RequestException\<close> raised by \<open>requests.get\<close>,
  \<open>raise_for_status\<close> or \<open>json\<close>, or the parsed body.
\<close>

subsection \<open>The city registry\<close>

record city_info =
  name :: string
  lat :: real
  lon :: real

definition BASE_URL :: string where
  "BASE_URL = ''https://api.open-meteo.com/v1/forecast''"

definition cities :: "city_info list" where
  "cities =
    [\<lparr>name = ''London'', lat = 51.5074, lon = - 0.1278\<rparr>,
     \<lparr>name = ''New York'', lat = 40.7128, lon = - 74.0060\<rparr>,
     \<lparr>name = ''Tokyo'', lat = 35.6762, lon = 139.6503\<rparr>,
     \<lparr>name = ''Paris'', lat = 48.8566, lon = 2.3522\<rparr>,
     \<lparr>name = ''Sydney'', lat = - 33.8688, lon = 151.2093\<rparr>,
     \<lparr>name = ''Mumbai'', lat = 19.0760, lon = 72.8777\<rparr>,
     \<lparr>name = ''Dubai'', lat = 25.2048, lon = 55.2708\<rparr>,
     \<lparr>name = ''Singapore'', lat = 1.3521, lon = 103.8198\<rparr>,
     \<lparr>name = ''Berlin'', lat = 52.5200, lon = 13.4050\<rparr>,
     \<lparr>name = ''Toronto'', lat = 43.6532, lon = - 79.3832\<rparr>]"

subsection \<open>The request and its answer\<close>

datatype param = PFloat real | PStr string

definition request_params :: "city_info \<Rightarrow> (string \<times> param) list" where
  "request_params city_info =
    [(''latitude'', PFloat (lat city_info)),
     (''longitude'', PFloat (lon city_info)),
     (''current'', PStr ''temperature_2m,relative_humidity_2m,wind_speed_10m,weather_code''),
     (''timezone'', PStr ''auto'')]"

text \<open>The \<open>current\<close> object of a response: each of the four requested keys may be absent.\<close>

record current_section =
  temperature_2m :: "real option"
  relative_humidity_2m :: "real option"
  wind_speed_10m :: "real option"
  weather_code :: "int option"

text \<open>The parsed body \<open>response.json()\<close>: a dictionary whose key \<open>current\<close> may be absent.\<close>

record body =
  current :: "current_section option"

text \<open>
  \<open>Inl e\<close>: the request raised a \<open>RequestException\<close> with message \<open>e\<close>;
  \<open>Inr b\<close>: status 2xx and the body parsed to \<open>b\<close>.
\<close>

type_synonym network = "string \<Rightarrow> (string \<times> param) list \<Rightarrow> string + body"

subsection \<open>Console output and other effects, in program order\<close>

record weather_info =
  City :: string
  Temperature :: real
  Humidity :: real
  Wind_Speed :: real
  Weather_Code :: int
  Weather :: string
  Latitude :: real
  Longitude :: real
  Feels_Like :: real

text \<open>Values of a numpy array after a division: a quotient, or what numpy puts for \<open>x / 0\<close>.\<close>

datatype np_float = Finite real | NaN | PosInf | NegInf

text \<open>
  One constructor per effect of the script. Lines that are plain ASCII text are
  \<open>Print\<close> of the text; a line that formats a number or holds a non-ASCII sign
  carries the values it interpolates.
\<close>

datatype event =
    Print string
  | Print_Fetched string real string
  | Print_No_Data
  | Print_Data_Fetched "weather_info list"
  | Save_Fig string "np_float list"
  | Print_Dashboard_Saved
  | Show
  | Print_Average_Temperature np_float
  | Print_Highest_Temperature np_float string
  | Print_Lowest_Temperature np_float string
  | Print_Average_Humidity np_float
  | Print_Average_Wind_Speed np_float
  | Print_Task_Completed

datatype error = ValueError | KeyError

datatype status = Finished | Exit_Called | Uncaught error

subsection \<open>Fetching\<close>

definition fetch_weather_data :: "network \<Rightarrow> city_info \<Rightarrow> event list \<times> body option" where
  "fetch_weather_data net city_info =
    (let params = request_params city_info
     in case net BASE_URL params of
          Inr response_json \<Rightarrow> ([], Some response_json)
        | Inl e \<Rightarrow>
            ([Print (''Error fetching data for '' @ name city_info @ '': '' @ e)], None))"

subsection \<open>Weather codes\<close>

definition weather_codes :: "(int \<times> string) list" where
  "weather_codes =
    [(0, ''Clear sky''),
     (1, ''Mainly clear''),
     (2, ''Partly cloudy''),
     (3, ''Overcast''),
     (45, ''Foggy''),
     (48, ''Foggy''),
     (51, ''Light drizzle''),
     (53, ''Moderate drizzle''),
     (55, ''Dense drizzle''),
     (61, ''Slight rain''),
     (63, ''Moderate rain''),
     (65, ''Heavy rain''),
     (71, ''Slight snow''),
     (73, ''Moderate snow''),
     (75, ''Heavy snow''),
     (77, ''Snow grains''),
     (80, ''Slight rain showers''),
     (81, ''Moderate rain showers''),
     (82, ''Violent rain showers''),
     (85, ''Slight snow showers''),
     (86, ''Heavy snow showers''),
     (95, ''Thunderstorm''),
     (96, ''Thunderstorm with hail''),
     (99, ''Thunderstorm with hail'')]"

text \<open>\<open>dict.get(key, default)\<close> on a dictionary written as its list of items.\<close>

definition dict_get :: "('k \<times> 'v) list \<Rightarrow> 'k \<Rightarrow> 'v \<Rightarrow> 'v" where
  "dict_get d k dflt = (case map_of d k of None \<Rightarrow> dflt | Some v \<Rightarrow> v)"

definition get_weather_description :: "int \<Rightarrow> string" where
  "get_weather_description code = dict_get weather_codes code ''Unknown''"

text \<open>The codes of the table that carry a given label, in table order.\<close>

definition codes_labelled :: "string \<Rightarrow> int list" where
  "codes_labelled l = map fst (filter (\<lambda>kv. snd kv = l) weather_codes)"

subsection \<open>Building the records\<close>

text \<open>\<open>d.get(k, 0)\<close> for a key of the \<open>current\<close> record.\<close>

definition get_or :: "'a option \<Rightarrow> 'a \<Rightarrow> 'a" where
  "get_or field dflt = (case field of None \<Rightarrow> dflt | Some v \<Rightarrow> v)"

definition make_weather_info :: "city_info \<Rightarrow> current_section \<Rightarrow> weather_info" where
  "make_weather_info city_info cur =
    (let temperature = get_or (temperature_2m cur) 0;
         humidity = get_or (relative_humidity_2m cur) 0;
         wind_speed = get_or (wind_speed_10m cur) 0;
         code = get_or (weather_code cur) 0;
         weather = get_weather_description (get_or (weather_code cur) 0);
         wind_chill = wind_speed * 0.5
     in \<lparr>City = name city_info,
         Temperature = temperature,
         Humidity = humidity,
         Wind_Speed = wind_speed,
         Weather_Code = code,
         Weather = weather,
         Latitude = lat city_info,
         Longitude = lon city_info,
         Feels_Like = temperature - wind_chill\<rparr>)"

text \<open>
  One pass of the \<open>for city_info in cities\<close> loop over the console and the list
  \<open>weather_data\<close>. The guard \<open>data and 'current' in data\<close> holds exactly when a body
  came back and has the key (a body without keys is falsy and has no \<open>current\<close>).
\<close>

definition loop_body ::
  "network \<Rightarrow> city_info \<Rightarrow> event list \<times> weather_info list \<Rightarrow> event list \<times> weather_info list" where
  "loop_body net city_info st =
    (let (console, weather_data) = st;
         console = console @ [Print (''Fetching data for '' @ name city_info @ ''...'')];
         (printed, data) = fetch_weather_data net city_info;
         console = console @ printed
     in case data of
          None \<Rightarrow> (console, weather_data)
        | Some response_json \<Rightarrow>
            (case current response_json of
               None \<Rightarrow> (console, weather_data)
             | Some cur \<Rightarrow>
                 (let weather_info = make_weather_info city_info cur
                  in (console @ [Print_Fetched (name city_info) (Temperature weather_info)
                                   (Weather weather_info)],
                      weather_data @ [weather_info]))))"

fun collect ::
  "network \<Rightarrow> city_info list \<Rightarrow> event list \<times> weather_info list \<Rightarrow> event list \<times> weather_info list" where
  "collect net [] st = st"
| "collect net (city_info # rest) st = collect net rest (loop_body net city_info st)"

text \<open>A fetch succeeds when a body came back and it has a \<open>current\<close> section.\<close>

definition fetch_succeeds :: "network \<Rightarrow> city_info \<Rightarrow> bool" where
  "fetch_succeeds net city_info =
    (case net BASE_URL (request_params city_info) of
       Inl e \<Rightarrow> False
     | Inr response_json \<Rightarrow> current response_json \<noteq> None)"

subsection \<open>The data frame: series operations\<close>

text \<open>
  \<open>df = pd.DataFrame(weather_data)\<close> keeps the rows in list order under the index
  \<open>0, 1, 2, ...\<close>; a frame is its list of rows and \<open>df.empty\<close> is \<open>df = []\<close>.
  The operations of pandas and numpy below are written from their documented
  behaviour: \<open>mean\<close>, \<open>max\<close> and \<open>min\<close> of an empty series are NaN, \<open>idxmax\<close>
  and \<open>idxmin\<close> raise \<open>ValueError\<close> on an empty series and otherwise scan from
  the left, replacing the best position only by a strictly better value.
\<close>

definition Series_mean :: "real list \<Rightarrow> np_float" where
  "Series_mean xs = (if xs = [] then NaN else Finite (sum_list xs / real (length xs)))"

definition Series_max :: "real list \<Rightarrow> np_float" where
  "Series_max xs = (if xs = [] then NaN else Finite (Max (set xs)))"

definition Series_min :: "real list \<Rightarrow> np_float" where
  "Series_min xs = (if xs = [] then NaN else Finite (Min (set xs)))"

fun scan_best :: "(real \<Rightarrow> real \<Rightarrow> bool) \<Rightarrow> real list \<Rightarrow> nat \<Rightarrow> nat \<times> real \<Rightarrow> nat" where
  "scan_best better [] i (bi, bv) = bi"
| "scan_best better (x # xs) i (bi, bv) =
    (if better x bv then scan_best better xs (Suc i) (i, x)
     else scan_best better xs (Suc i) (bi, bv))"

definition idxmax :: "real list \<Rightarrow> error + nat" where
  "idxmax xs =
    (case xs of [] \<Rightarrow> Inl ValueError | x # rest \<Rightarrow> Inr (scan_best (\<lambda>a b. a > b) rest 1 (0, x)))"

definition idxmin :: "real list \<Rightarrow> error + nat" where
  "idxmin xs =
    (case xs of [] \<Rightarrow> Inl ValueError | x # rest \<Rightarrow> Inr (scan_best (\<lambda>a b. a < b) rest 1 (0, x)))"

text \<open>\<open>df.loc[i, column]\<close>: the row labelled \<open>i\<close>, \<open>KeyError\<close> when there is none.\<close>

definition loc :: "weather_info list \<Rightarrow> nat \<Rightarrow> error + weather_info" where
  "loc df i = (if i < length df then Inr (df ! i) else Inl KeyError)"

text \<open>Division of numpy floats: a zero divisor gives NaN or an infinity and a warning, never an exception.\<close>

definition np_divide :: "real \<Rightarrow> real \<Rightarrow> np_float" where
  "np_divide a b =
    (if b \<noteq> 0 then Finite (a / b)
     else if a = 0 then NaN
     else if 0 < a then PosInf else NegInf)"

subsection \<open>Dashboard renderer\<close>

text \<open>
  The divisor of the temperature panel's colour computation,
  \<open>df[T].max() - df[T].min()\<close>, and the array handed to the colour map,
  \<open>(df[T].values - df[T].min()) / (df[T].max() - df[T].min())\<close>.
\<close>

definition colors_divisor :: "weather_info list \<Rightarrow> np_float" where
  "colors_divisor df =
    (let temps = map Temperature df
     in case (Series_max temps, Series_min temps) of
          (Finite hi, Finite lo) \<Rightarrow> Finite (hi - lo)
        | _ \<Rightarrow> NaN)"

definition colors :: "weather_info list \<Rightarrow> np_float list" where
  "colors df =
    (let temps = map Temperature df
     in case (Series_max temps, Series_min temps) of
          (Finite hi, Finite lo) \<Rightarrow> map (\<lambda>t. np_divide (t - lo) (hi - lo)) temps
        | _ \<Rightarrow> map (\<lambda>t. NaN) temps)"

text \<open>
  The six panels are calls into the plotting library on columns of \<open>df\<close>; what the
  script computes itself for them is \<open>colors\<close>. The figure is then saved, the
  confirmation printed and the window shown.
\<close>

definition dashboard_renderer :: "weather_info list \<Rightarrow> event list" where
  "dashboard_renderer df =
    [Save_Fig ''weather_dashboard.png'' (colors df), Print_Dashboard_Saved, Show]"

subsection \<open>Summary reporter\<close>

definition report_highest :: "weather_info list \<Rightarrow> error + event" where
  "report_highest df =
    (let temps = map Temperature df; highest = Series_max temps
     in case idxmax temps of
          Inl e \<Rightarrow> Inl e
        | Inr i \<Rightarrow>
            (case loc df i of
               Inl e \<Rightarrow> Inl e
             | Inr row \<Rightarrow> Inr (Print_Highest_Temperature highest (City row))))"

definition report_lowest :: "weather_info list \<Rightarrow> error + event" where
  "report_lowest df =
    (let temps = map Temperature df; lowest = Series_min temps
     in case idxmin temps of
          Inl e \<Rightarrow> Inl e
        | Inr i \<Rightarrow>
            (case loc df i of
               Inl e \<Rightarrow> Inl e
             | Inr row \<Rightarrow> Inr (Print_Lowest_Temperature lowest (City row))))"

definition rule60 :: string where
  "rule60 = replicate 60 (CHR ''='')"

text \<open>The prints of the statistics block, up to the first exception if one is raised.\<close>

definition summary_reporter :: "weather_info list \<Rightarrow> event list \<times> error option" where
  "summary_reporter df =
    (let printed =
           [Print (CHR 0x0A # rule60), Print ''SUMMARY STATISTICS'', Print rule60,
            Print_Average_Temperature (Series_mean (map Temperature df))]
     in case report_highest df of
          Inl e \<Rightarrow> (printed, Some e)
        | Inr highest \<Rightarrow>
            (case report_lowest df of
               Inl e \<Rightarrow> (printed @ [highest], Some e)
             | Inr lowest \<Rightarrow>
                 (printed @
                  [highest, lowest,
                   Print_Average_Humidity (Series_mean (map Humidity df)),
                   Print_Average_Wind_Speed (Series_mean (map Wind_Speed df)),
                   Print_Task_Completed],
                  None)))"

subsection \<open>The script\<close>

definition header :: "event list" where
  "header =
    [Print ''Fetching weather data from Open-Meteo (No API key needed)...'', Print rule60]"

text \<open>
  The whole script over a registry; \<open>exit()\<close> after the error line ends the run
  before the dashboard and the statistics.
\<close>

definition pipeline :: "network \<Rightarrow> city_info list \<Rightarrow> event list \<times> status" where
  "pipeline net registry =
    (let (console, weather_data) = collect net registry (header, []);
         df = weather_data
     in if df = [] then (console @ [Print_No_Data], Exit_Called)
        else
          (let console = console @ [Print_Data_Fetched df] @ dashboard_renderer df;
               (printed, raised) = summary_reporter df
           in (console @ printed,
               case raised of None \<Rightarrow> Finished | Some e \<Rightarrow> Uncaught e)))"

definition main :: "network \<Rightarrow> event list \<times> status" where
  "main net = pipeline net cities"

text \<open>The list \<open>weather_data\<close> when the loop has ended.\<close>

definition weather_table :: "network \<Rightarrow> city_info list \<Rightarrow> weather_info list" where
  "weather_table net registry = snd (collect net registry (header, []))"

fun is_render :: "event \<Rightarrow> bool" where
  "is_render (Save_Fig file cs) = True"
| "is_render Print_Dashboard_Saved = True"
| "is_render Show = True"
| "is_render e = False"

fun is_report :: "event \<Rightarrow> bool" where
  "is_report (Print_Average_Temperature m) = True"
| "is_report (Print_Highest_Temperature t c) = True"
| "is_report (Print_Lowest_Temperature t c) = True"
| "is_report (Print_Average_Humidity m) = True"
| "is_report (Print_Average_Wind_Speed m) = True"
| "is_report Print_Task_Completed = True"
| "is_report e = False"

text \<open>The image files a run has written.\<close>

fun files_written :: "event list \<Rightarrow> string list" where
  "files_written [] = []"
| "files_written (Save_Fig file cs # es) = file # files_written es"
| "files_written (e # es) = files_written es"

text \<open>The console when the loop has ended.\<close>

definition fetch_console :: "network \<Rightarrow> city_info list \<Rightarrow> event list" where
  "fetch_console net registry = fst (collect net registry (header, []))"

text \<open>What one pass of the loop appends to \<open>weather_data\<close>: one record or none.\<close>

definition city_rows :: "network \<Rightarrow> city_info \<Rightarrow> weather_info list" where
  "city_rows net city_info =
    (case net BASE_URL (request_params city_info) of
       Inl e \<Rightarrow> []
     | Inr response_json \<Rightarrow>
         (case current response_json of
            None \<Rightarrow> []
          | Some cur \<Rightarrow> [make_weather_info city_info cur]))"

subsection \<open>Example runs\<close>

text \<open>
  The end-to-end scenario of the specification: the registry \<open>A\<close>, \<open>B\<close>, a valid
  payload for \<open>A\<close> (temperature 15, humidity 50, wind 4, code 0) and a network
  failure for \<open>B\<close>.
\<close>

definition city_A :: city_info where
  "city_A = \<lparr>name = ''A'', lat = 0, lon = 0\<rparr>"

definition city_B :: city_info where
  "city_B = \<lparr>name = ''B'', lat = 1, lon = 1\<rparr>"

definition registry_AB :: "city_info list" where
  "registry_AB = [city_A, city_B]"

definition payload_A :: body where
  "payload_A =
    \<lparr>current = Some \<lparr>temperature_2m = Some 15, relative_humidity_2m = Some 50,
                      wind_speed_10m = Some 4, weather_code = Some 0\<rparr>\<rparr>"

definition net_AB :: network where
  "net_AB url params =
    (if params = request_params city_A then Inr payload_A else Inl ''Connection refused'')"

text \<open>Networks for the script's own registry: nothing answers; only London answers; every city
  gets the same payload; every body lacks the \<open>current\<close> key; every \<open>current\<close> object is empty.\<close>

definition net_down :: network where
  "net_down url params = Inl ''Connection refused''"

definition net_london_only :: network where
  "net_london_only url params =
    (if map_of params ''latitude'' = Some (PFloat 51.5074) then Inr payload_A
     else Inl ''Read timed out'')"

definition net_uniform :: network where
  "net_uniform url params = Inr payload_A"

definition net_no_current :: network where
  "net_no_current url params = Inr \<lparr>current = None\<rparr>"

definition net_bare :: network where
  "net_bare url params =
    Inr \<lparr>current = Some \<lparr>temperature_2m = None, relative_humidity_2m = None,
                          wind_speed_10m = None, weather_code = None\<rparr>\<rparr>"



section \<open>Properties\<close>

subsection \<open>Evaluation of the examples\<close>

lemmas example_defs =
  city_A_def city_B_def registry_AB_def payload_A_def net_AB_def net_down_def
  net_london_only_def net_uniform_def net_no_current_def net_bare_def

lemmas run_defs =
  weather_table_def fetch_console_def loop_body_def fetch_weather_data_def
  request_params_def make_weather_info_def get_or_def Let_def header_def

lemma get_weather_description_cases:
  "get_weather_description code =
    (if code = 0 then ''Clear sky'' else if code = 1 then ''Mainly clear''
     else if code = 2 then ''Partly cloudy'' else if code = 3 then ''Overcast''
     else if code = 45 then ''Foggy'' else if code = 48 then ''Foggy''
     else if code = 51 then ''Light drizzle'' else if code = 53 then ''Moderate drizzle''
     else if code = 55 then ''Dense drizzle'' else if code = 61 then ''Slight rain''
     else if code = 63 then ''Moderate rain'' else if code = 65 then ''Heavy rain''
     else if code = 71 then ''Slight snow'' else if code = 73 then ''Moderate snow''
     else if code = 75 then ''Heavy snow'' else if code = 77 then ''Snow grains''
     else if code = 80 then ''Slight rain showers''
     else if code = 81 then ''Moderate rain showers''
     else if code = 82 then ''Violent rain showers''
     else if code = 85 then ''Slight snow showers''
     else if code = 86 then ''Heavy snow showers'' else if code = 95 then ''Thunderstorm''
     else if code = 96 then ''Thunderstorm with hail''
     else if code = 99 then ''Thunderstorm with hail''
     else ''Unknown'')"
  by (simp add: get_weather_description_def dict_get_def weather_codes_def)

lemma weather_codes_distinct: "distinct (map fst weather_codes)"
  by (simp add: weather_codes_def)

lemma weather_table_AB:
  "weather_table net_AB registry_AB =
    [\<lparr>City = ''A'', Temperature = 15, Humidity = 50, Wind_Speed = 4, Weather_Code = 0,
      Weather = ''Clear sky'', Latitude = 0, Longitude = 0, Feels_Like = 13\<rparr>]"
  by (simp add: example_defs run_defs get_weather_description_cases)

lemma weather_table_london_only:
  "weather_table net_london_only cities =
    [\<lparr>City = ''London'', Temperature = 15, Humidity = 50, Wind_Speed = 4, Weather_Code = 0,
      Weather = ''Clear sky'', Latitude = 51.5074, Longitude = - 0.1278, Feels_Like = 13\<rparr>]"
  by (simp add: example_defs run_defs cities_def get_weather_description_cases)

lemma weather_table_down: "weather_table net_down cities = []"
  by (simp add: example_defs run_defs cities_def)

lemma cities_distinct: "distinct (map name cities)"
  by (simp add: cities_def)

subsection \<open>The loop\<close>

lemma loop_body_snd: "snd (loop_body net c (out, wd)) = wd @ city_rows net c"
  by (simp add: loop_body_def fetch_weather_data_def city_rows_def Let_def
      split: sum.splits option.splits)

lemma collect_snd: "snd (collect net cs st) = snd st @ concat (map (city_rows net) cs)"
proof (induction cs arbitrary: st)
  case Nil
  then show ?case by simp
next
  case (Cons c cs)
  obtain out wd where st: "st = (out, wd)" by (cases st)
  show ?case
    by (simp add: Cons.IH st loop_body_snd)
qed

lemma weather_table_rows: "weather_table net registry = concat (map (city_rows net) registry)"
  by (simp add: weather_table_def collect_snd)

lemma city_rows_City:
  "map City (city_rows net c) = (if fetch_succeeds net c then [name c] else [])"
  by (simp add: city_rows_def fetch_succeeds_def make_weather_info_def Let_def
      split: sum.splits option.splits)

lemma weather_table_City:
  "map City (weather_table net registry) = map name (filter (fetch_succeeds net) registry)"
  by (induction registry) (simp_all add: weather_table_rows city_rows_City)

lemma city_rows_feels_like:
  "r \<in> set (city_rows net c) \<Longrightarrow> Feels_Like r = Temperature r - 0.5 * Wind_Speed r"
  by (auto simp: city_rows_def make_weather_info_def Let_def split: sum.splits option.splits)

lemma city_rows_label:
  "r \<in> set (city_rows net c) \<Longrightarrow> Weather r = get_weather_description (Weather_Code r)"
  by (auto simp: city_rows_def make_weather_info_def Let_def split: sum.splits option.splits)

text \<open>
  Claim C1. Over a registry of N+M cities (with distinct names) of which N fetches
  succeed and M fail, the table has exactly N records, their cities are the
  successful cities in registry order, no city occurs twice, and a failed city has
  no record.
\<close>

theorem weather_table_one_record_per_success:
  assumes "distinct (map name registry)"
  shows "length (weather_table net registry) = length (filter (fetch_succeeds net) registry) \<and>
         map City (weather_table net registry) = map name (filter (fetch_succeeds net) registry) \<and>
         distinct (map City (weather_table net registry)) \<and>
         (\<forall>c \<in> set registry. \<not> fetch_succeeds net c \<longrightarrow>
            name c \<notin> set (map City (weather_table net registry))) \<and>
         length (filter (fetch_succeeds net) registry) +
           length (filter (\<lambda>c. \<not> fetch_succeeds net c) registry) = length registry"
proof -
  let ?ok = "filter (fetch_succeeds net) registry"
  have names: "map City (weather_table net registry) = map name ?ok"
    by (rule weather_table_City)
  have len: "length (weather_table net registry) = length ?ok"
    using arg_cong [OF names, of length] by simp
  have dist: "distinct (map name ?ok)"
    using assms by (rule distinct_map_filter)
  have absent: "\<forall>c \<in> set registry. \<not> fetch_succeeds net c \<longrightarrow> name c \<notin> set (map name ?ok)"
  proof (intro ballI impI notI)
    fix c assume c: "c \<in> set registry" and bad: "\<not> fetch_succeeds net c"
      and "name c \<in> set (map name ?ok)"
    then obtain d where d: "d \<in> set registry" "fetch_succeeds net d" "name d = name c"
      by auto
    from assms c d(1) d(3) have "d = c"
      by (meson distinct_map inj_onD)
    with bad d(2) show False by simp
  qed
  have total: "length ?ok + length (filter (\<lambda>c. \<not> fetch_succeeds net c) registry) = length registry"
    by (rule sum_length_filter_compl)
  show ?thesis
    using names len dist absent total by simp
qed

theorem weather_table_one_record_per_success_witness:
  "distinct (map name cities) \<and>
   filter (fetch_succeeds net_london_only) cities = [hd cities] \<and>
   length (filter (\<lambda>c. \<not> fetch_succeeds net_london_only c) cities) = 9 \<and>
   length (weather_table net_london_only cities) = 1 \<and>
   map City (weather_table net_london_only cities) = [''London''] \<and>
   ''Tokyo'' \<notin> set (map City (weather_table net_london_only cities))"
proof -
  have ok: "filter (fetch_succeeds net_london_only) cities = [hd cities]"
    by (simp add: cities_def fetch_succeeds_def request_params_def example_defs)
  have bad: "length (filter (\<lambda>c. \<not> fetch_succeeds net_london_only c) cities) = 9"
    by (simp add: cities_def fetch_succeeds_def request_params_def example_defs)
  have tokyo: "cities ! 2 \<in> set cities" "\<not> fetch_succeeds net_london_only (cities ! 2)"
    "name (cities ! 2) = ''Tokyo''" "name (hd cities) = ''London''"
    by (simp_all add: cities_def fetch_succeeds_def request_params_def example_defs)
  from weather_table_one_record_per_success [OF cities_distinct, of net_london_only]
  show ?thesis
    using cities_distinct ok bad tokyo by (metis length_Cons list.simps(8,9) list.size(3) One_nat_def)
qed

text \<open>
  Claim C2. Every record of the table has \<open>Feels_Like\<close> equal to its temperature
  minus 0.5 times its wind speed, whatever the sign or size of the two numbers (in
  exact arithmetic: there is no clamping and no special case).
\<close>

theorem feels_like_formula:
  "\<forall>r \<in> set (weather_table net registry). Feels_Like r = Temperature r - 0.5 * Wind_Speed r"
  by (auto simp: weather_table_rows dest: city_rows_feels_like)

theorem feels_like_formula_witness:
  "hd (weather_table net_AB registry_AB) \<in> set (weather_table net_AB registry_AB) \<and>
   Temperature (hd (weather_table net_AB registry_AB)) = 15 \<and>
   Wind_Speed (hd (weather_table net_AB registry_AB)) = 4 \<and>
   Feels_Like (hd (weather_table net_AB registry_AB)) = 13"
  using feels_like_formula [of net_AB registry_AB]
  by (simp add: weather_table_AB)

text \<open>
  Claim C10. In every record of the table the stored label is the translator applied
  to the stored weather code.
\<close>

theorem label_matches_code:
  "\<forall>r \<in> set (weather_table net registry). Weather r = get_weather_description (Weather_Code r)"
  by (auto simp: weather_table_rows dest: city_rows_label)

theorem label_matches_code_witness:
  "hd (weather_table net_AB registry_AB) \<in> set (weather_table net_AB registry_AB) \<and>
   Weather_Code (hd (weather_table net_AB registry_AB)) = 0 \<and>
   Weather (hd (weather_table net_AB registry_AB)) = get_weather_description 0 \<and>
   get_weather_description 0 = ''Clear sky''"
  using label_matches_code [of net_AB registry_AB]
  by (simp add: weather_table_AB get_weather_description_cases)

subsection \<open>The weather-code translator\<close>

text \<open>
  Claim C4. \<open>get_weather_description\<close> is a total function on the integers: on each
  code of the table it returns the string the table gives, on every other integer it
  returns \<open>Unknown\<close>.
\<close>

theorem get_weather_description_total:
  "(\<forall>(code, label) \<in> set weather_codes. get_weather_description code = label) \<and>
   (code \<notin> fst ` set weather_codes \<longrightarrow> get_weather_description code = ''Unknown'') \<and>
   map get_weather_description
     [0, 1, 2, 3, 45, 48, 51, 53, 55, 61, 63, 65, 71, 73, 75, 77, 80, 81, 82, 85, 86, 95, 96, 99] =
     [''Clear sky'', ''Mainly clear'', ''Partly cloudy'', ''Overcast'', ''Foggy'', ''Foggy'',
      ''Light drizzle'', ''Moderate drizzle'', ''Dense drizzle'', ''Slight rain'',
      ''Moderate rain'', ''Heavy rain'', ''Slight snow'', ''Moderate snow'', ''Heavy snow'',
      ''Snow grains'', ''Slight rain showers'', ''Moderate rain showers'',
      ''Violent rain showers'', ''Slight snow showers'', ''Heavy snow showers'',
      ''Thunderstorm'', ''Thunderstorm with hail'', ''Thunderstorm with hail''] \<and>
   fst ` set weather_codes =
     {0, 1, 2, 3, 45, 48, 51, 53, 55, 61, 63, 65, 71, 73, 75, 77, 80, 81, 82, 85, 86, 95, 96, 99}"
proof (intro conjI)
  show "\<forall>(code, label) \<in> set weather_codes. get_weather_description code = label"
    using weather_codes_distinct
    by (auto simp: get_weather_description_def dict_get_def)
  show "code \<notin> fst ` set weather_codes \<longrightarrow> get_weather_description code = ''Unknown''"
    by (simp add: get_weather_description_def dict_get_def map_of_eq_None_iff [THEN iffD2])
  show "map get_weather_description
     [0, 1, 2, 3, 45, 48, 51, 53, 55, 61, 63, 65, 71, 73, 75, 77, 80, 81, 82, 85, 86, 95, 96, 99] =
     [''Clear sky'', ''Mainly clear'', ''Partly cloudy'', ''Overcast'', ''Foggy'', ''Foggy'',
      ''Light drizzle'', ''Moderate drizzle'', ''Dense drizzle'', ''Slight rain'',
      ''Moderate rain'', ''Heavy rain'', ''Slight snow'', ''Moderate snow'', ''Heavy snow'',
      ''Snow grains'', ''Slight rain showers'', ''Moderate rain showers'',
      ''Violent rain showers'', ''Slight snow showers'', ''Heavy snow showers'',
      ''Thunderstorm'', ''Thunderstorm with hail'', ''Thunderstorm with hail'']"
    by (simp add: get_weather_description_cases)
  show "fst ` set weather_codes =
     {0, 1, 2, 3, 45, 48, 51, 53, 55, 61, 63, 65, 71, 73, 75, 77, 80, 81, 82, 85, 86, 95, 96, 99}"
    by (simp add: weather_codes_def)
qed

theorem get_weather_description_total_witness:
  "(45, ''Foggy'') \<in> set weather_codes \<and> get_weather_description 45 = ''Foggy'' \<and>
   (4::int) \<notin> fst ` set weather_codes \<and> get_weather_description 4 = ''Unknown'' \<and>
   (- 1::int) \<notin> fst ` set weather_codes \<and> get_weather_description (- 1) = ''Unknown''"
proof -
  have in45: "(45, ''Foggy'') \<in> set weather_codes"
    by (simp add: weather_codes_def)
  have out4: "(4::int) \<notin> fst ` set weather_codes" and outm: "(- 1::int) \<notin> fst ` set weather_codes"
    by (simp_all add: weather_codes_def)
  from get_weather_description_total [of 4] get_weather_description_total [of "- 1"] in45 out4 outm
  show ?thesis by blast
qed

text \<open>
  Claim C5 as stated (two codes labelled \<open>Foggy\<close> and three labelled
  \<open>Thunderstorm with hail\<close>) does not hold of the table.
\<close>

theorem hail_label_three_codes_counterexample:
  "\<not> (length (codes_labelled ''Foggy'') = 2 \<and>
      length (codes_labelled ''Thunderstorm with hail'') = 3)"
  by (simp add: codes_labelled_def weather_codes_def)

text \<open>
  Claim C5, amended. Exactly two codes, 45 and 48, map to \<open>Foggy\<close>, and exactly two
  codes, 96 and 99, map to \<open>Thunderstorm with hail\<close>; code 95 is plain
  \<open>Thunderstorm\<close>.
\<close>

theorem many_to_one_labels:
  "{c. get_weather_description c = ''Foggy''} = {45, 48} \<and>
   {c. get_weather_description c = ''Thunderstorm with hail''} = {96, 99} \<and>
   codes_labelled ''Foggy'' = [45, 48] \<and>
   codes_labelled ''Thunderstorm with hail'' = [96, 99] \<and>
   get_weather_description 95 = ''Thunderstorm''"
proof (intro conjI)
  show "{c. get_weather_description c = ''Foggy''} = {45, 48}"
    by (auto simp: get_weather_description_cases split: if_splits)
  show "{c. get_weather_description c = ''Thunderstorm with hail''} = {96, 99}"
    by (auto simp: get_weather_description_cases split: if_splits)
  show "codes_labelled ''Foggy'' = [45, 48]"
    by (simp add: codes_labelled_def weather_codes_def)
  show "codes_labelled ''Thunderstorm with hail'' = [96, 99]"
    by (simp add: codes_labelled_def weather_codes_def)
  show "get_weather_description 95 = ''Thunderstorm''"
    by (simp add: get_weather_description_cases)
qed

subsection \<open>Cities without data\<close>

lemma loop_body_appends:
  "loop_body net c (console, weather_data) =
     (console @ fst (loop_body net c ([], [])), weather_data @ snd (loop_body net c ([], [])))"
  by (simp add: loop_body_def fetch_weather_data_def Let_def split: sum.splits option.splits)

lemma collect_appends:
  "collect net cs (console, weather_data) =
     (console @ concat (map (\<lambda>d. fst (loop_body net d ([], []))) cs),
      weather_data @ concat (map (\<lambda>d. snd (loop_body net d ([], []))) cs))"
proof (induction cs arbitrary: console weather_data)
  case Nil
  then show ?case by simp
next
  case (Cons c cs)
  show ?case
    by (subst collect.simps, subst loop_body_appends) (simp add: Cons.IH)
qed

text \<open>
  Claim C7. A city whose body came back without a \<open>current\<close> key adds to the
  console its progress line and nothing else, and nothing to the table; a city
  whose request raised adds the progress line and the diagnostic that names it,
  and nothing to the table. In both cases the loop goes on: at the end of the
  loop the console holds, around these lines, what the passes for the cities
  before and after print, and the table holds the records of those passes.
\<close>

theorem failed_city_skipped:
  "(net BASE_URL (request_params c) = Inr response_json \<and> current response_json = None \<longrightarrow>
      loop_body net c (console, weather_data) =
        (console @ [Print (''Fetching data for '' @ name c @ ''...'')], weather_data) \<and>
      collect net (before @ c # rest) (console, weather_data) =
        (console @ concat (map (\<lambda>d. fst (loop_body net d ([], []))) before) @
           [Print (''Fetching data for '' @ name c @ ''...'')] @
           concat (map (\<lambda>d. fst (loop_body net d ([], []))) rest),
         weather_data @ concat (map (\<lambda>d. snd (loop_body net d ([], []))) before) @
           concat (map (\<lambda>d. snd (loop_body net d ([], []))) rest))) \<and>
   (net BASE_URL (request_params c) = Inl e \<longrightarrow>
      loop_body net c (console, weather_data) =
        (console @ [Print (''Fetching data for '' @ name c @ ''...''),
                    Print (''Error fetching data for '' @ name c @ '': '' @ e)],
         weather_data) \<and>
      collect net (before @ c # rest) (console, weather_data) =
        (console @ concat (map (\<lambda>d. fst (loop_body net d ([], []))) before) @
           [Print (''Fetching data for '' @ name c @ ''...''),
            Print (''Error fetching data for '' @ name c @ '': '' @ e)] @
           concat (map (\<lambda>d. fst (loop_body net d ([], []))) rest),
         weather_data @ concat (map (\<lambda>d. snd (loop_body net d ([], []))) before) @
           concat (map (\<lambda>d. snd (loop_body net d ([], []))) rest)))"
proof (intro conjI impI)
  assume a: "net BASE_URL (request_params c) = Inr response_json \<and> current response_json = None"
  then show "loop_body net c (console, weather_data) =
      (console @ [Print (''Fetching data for '' @ name c @ ''...'')], weather_data)"
    by (simp add: loop_body_def fetch_weather_data_def)
  from a have "loop_body net c ([], []) = ([Print (''Fetching data for '' @ name c @ ''...'')], [])"
    by (simp add: loop_body_def fetch_weather_data_def)
  then show "collect net (before @ c # rest) (console, weather_data) =
        (console @ concat (map (\<lambda>d. fst (loop_body net d ([], []))) before) @
           [Print (''Fetching data for '' @ name c @ ''...'')] @
           concat (map (\<lambda>d. fst (loop_body net d ([], []))) rest),
         weather_data @ concat (map (\<lambda>d. snd (loop_body net d ([], []))) before) @
           concat (map (\<lambda>d. snd (loop_body net d ([], []))) rest))"
    by (simp add: collect_appends)
next
  assume a: "net BASE_URL (request_params c) = Inl e"
  then show "loop_body net c (console, weather_data) =
      (console @ [Print (''Fetching data for '' @ name c @ ''...''),
                  Print (''Error fetching data for '' @ name c @ '': '' @ e)],
       weather_data)"
    by (simp add: loop_body_def fetch_weather_data_def)
  from a have "loop_body net c ([], []) =
      ([Print (''Fetching data for '' @ name c @ ''...''),
        Print (''Error fetching data for '' @ name c @ '': '' @ e)], [])"
    by (simp add: loop_body_def fetch_weather_data_def)
  then show "collect net (before @ c # rest) (console, weather_data) =
        (console @ concat (map (\<lambda>d. fst (loop_body net d ([], []))) before) @
           [Print (''Fetching data for '' @ name c @ ''...''),
            Print (''Error fetching data for '' @ name c @ '': '' @ e)] @
           concat (map (\<lambda>d. fst (loop_body net d ([], []))) rest),
         weather_data @ concat (map (\<lambda>d. snd (loop_body net d ([], []))) before) @
           concat (map (\<lambda>d. snd (loop_body net d ([], []))) rest))"
    by (simp add: collect_appends)
qed

theorem failed_city_skipped_witness:
  "net_no_current BASE_URL (request_params city_A) = Inr \<lparr>current = None\<rparr> \<and>
   current \<lparr>current = None\<rparr> = None \<and>
   loop_body net_no_current city_A (header, []) =
     (header @ [Print ''Fetching data for A...''], []) \<and>
   collect net_no_current [city_A, city_B] (header, []) =
     (header @ [Print ''Fetching data for A...'', Print ''Fetching data for B...''], []) \<and>
   net_AB BASE_URL (request_params city_B) = Inl ''Connection refused'' \<and>
   loop_body net_AB city_B (header, []) =
     (header @ [Print ''Fetching data for B...'',
                Print ''Error fetching data for B: Connection refused''], []) \<and>
   collect net_AB [city_B, city_A] (header, []) =
     (header @ [Print ''Fetching data for B...'',
                Print ''Error fetching data for B: Connection refused'',
                Print ''Fetching data for A...'',
                Print_Fetched ''A'' 15 ''Clear sky''],
      [\<lparr>City = ''A'', Temperature = 15, Humidity = 50, Wind_Speed = 4, Weather_Code = 0,
        Weather = ''Clear sky'', Latitude = 0, Longitude = 0, Feels_Like = 13\<rparr>])"
proof -
  have a: "net_no_current BASE_URL (request_params city_A) = Inr \<lparr>current = None\<rparr> \<and>
           current \<lparr>current = None\<rparr> = None"
    by (simp add: net_no_current_def)
  have b: "net_AB BASE_URL (request_params city_B) = Inl ''Connection refused''"
    by (simp add: net_AB_def request_params_def city_A_def city_B_def)
  have na: "name city_A = ''A''" and nb: "name city_B = ''B''"
    by (simp_all add: city_A_def city_B_def)
  have lb: "loop_body net_no_current city_B ([], []) = ([Print ''Fetching data for B...''], [])"
    by (simp add: loop_body_def fetch_weather_data_def net_no_current_def nb)
  have la: "loop_body net_AB city_A ([], []) =
      ([Print ''Fetching data for A...'', Print_Fetched ''A'' 15 ''Clear sky''],
       [\<lparr>City = ''A'', Temperature = 15, Humidity = 50, Wind_Speed = 4, Weather_Code = 0,
         Weather = ''Clear sky'', Latitude = 0, Longitude = 0, Feels_Like = 13\<rparr>])"
    by (simp add: example_defs run_defs get_weather_description_cases)
  from failed_city_skipped [where net = net_no_current and c = city_A
        and response_json = "\<lparr>current = None\<rparr>" and before = "[]" and rest = "[city_B]"
        and console = header and weather_data = "[]"]
    failed_city_skipped [where net = net_AB and c = city_B and e = "''Connection refused''"
        and before = "[]" and rest = "[city_A]" and console = header and weather_data = "[]"]
    a b
  show ?thesis by (simp add: na nb la lb del: collect.simps)
qed

text \<open>
  Claim C8. When the body has a \<open>current\<close> section, the pass appends a record for
  the city whose temperature, humidity, wind speed and weather code are the values
  of the section, 0 for each key that is absent.
\<close>

theorem missing_fields_default_zero:
  assumes "net BASE_URL (request_params c) = Inr response_json"
    and "current response_json = Some cur"
  shows "loop_body net c (console, weather_data) =
           (console @ [Print (''Fetching data for '' @ name c @ ''...''),
                       Print_Fetched (name c) (Temperature (make_weather_info c cur))
                         (Weather (make_weather_info c cur))],
            weather_data @ [make_weather_info c cur]) \<and>
         City (make_weather_info c cur) = name c \<and>
         Temperature (make_weather_info c cur) =
           (case temperature_2m cur of None \<Rightarrow> 0 | Some t \<Rightarrow> t) \<and>
         Humidity (make_weather_info c cur) =
           (case relative_humidity_2m cur of None \<Rightarrow> 0 | Some h \<Rightarrow> h) \<and>
         Wind_Speed (make_weather_info c cur) =
           (case wind_speed_10m cur of None \<Rightarrow> 0 | Some w \<Rightarrow> w) \<and>
         Weather_Code (make_weather_info c cur) =
           (case weather_code cur of None \<Rightarrow> 0 | Some k \<Rightarrow> k) \<and>
         Latitude (make_weather_info c cur) = lat c \<and>
         Longitude (make_weather_info c cur) = lon c"
  using assms
  by (simp add: loop_body_def fetch_weather_data_def make_weather_info_def get_or_def Let_def)

theorem missing_fields_default_zero_witness:
  "net_bare BASE_URL (request_params city_A) =
     Inr \<lparr>current = Some \<lparr>temperature_2m = None, relative_humidity_2m = None,
                           wind_speed_10m = None, weather_code = None\<rparr>\<rparr> \<and>
   loop_body net_bare city_A ([], []) =
     ([Print ''Fetching data for A...'', Print_Fetched ''A'' 0 ''Clear sky''],
      [\<lparr>City = ''A'', Temperature = 0, Humidity = 0, Wind_Speed = 0, Weather_Code = 0,
        Weather = ''Clear sky'', Latitude = 0, Longitude = 0, Feels_Like = 0\<rparr>])"
proof -
  let ?cur = "\<lparr>temperature_2m = None, relative_humidity_2m = None,
               wind_speed_10m = None, weather_code = None\<rparr>"
  have a: "net_bare BASE_URL (request_params city_A) = Inr \<lparr>current = Some ?cur\<rparr>"
    by (simp add: net_bare_def)
  have b: "current \<lparr>current = Some ?cur\<rparr> = Some ?cur"
    by simp
  have r: "make_weather_info city_A ?cur =
      \<lparr>City = ''A'', Temperature = 0, Humidity = 0, Wind_Speed = 0, Weather_Code = 0,
       Weather = ''Clear sky'', Latitude = 0, Longitude = 0, Feels_Like = 0\<rparr>"
    by (simp add: make_weather_info_def get_or_def city_A_def get_weather_description_cases)
  from missing_fields_default_zero [where net = net_bare and c = city_A
        and response_json = "\<lparr>current = Some ?cur\<rparr>" and cur = ?cur
        and console = "[]" and weather_data = "[]", OF a b]
  show ?thesis
    using a by (simp add: r [unfolded city_A_def] city_A_def)
qed

subsection \<open>Summary reporter\<close>

lemma scan_best_max:
  assumes "drop i ys = xs" "bi < i" "i \<le> length ys" "ys ! bi = bv"
    "\<forall>j<i. ys ! j \<le> bv" "\<forall>j<bi. ys ! j < bv"
  shows "scan_best (\<lambda>a b. a > b) xs i (bi, bv) < length ys \<and>
         (\<forall>j<length ys. ys ! j \<le> ys ! scan_best (\<lambda>a b. a > b) xs i (bi, bv)) \<and>
         (\<forall>j<scan_best (\<lambda>a b. a > b) xs i (bi, bv).
            ys ! j < ys ! scan_best (\<lambda>a b. a > b) xs i (bi, bv))"
  using assms
proof (induction xs arbitrary: i bi bv)
  case Nil
  then have "i = length ys" by simp
  with Nil show ?case by simp
next
  case (Cons x xs)
  from Cons.prems(1) have i: "i < length ys"
    by (metis drop_all linorder_not_less list.distinct(1))
  from Cons.prems(1) i have x: "ys ! i = x" and rest: "drop (Suc i) ys = xs"
    by (metis Cons_nth_drop_Suc list.inject)+
  show ?case
  proof (cases "x > bv")
    case True
    have le: "\<forall>j<Suc i. ys ! j \<le> x"
      using Cons.prems(5) True x
      by (auto simp: less_Suc_eq intro: less_imp_le order_le_less_trans)
    have lt: "\<forall>j<i. ys ! j < x"
      using Cons.prems(5) True by (auto intro: order_le_less_trans)
    from Cons.IH [OF rest _ _ x le lt] i True show ?thesis by simp
  next
    case False
    have le: "\<forall>j<Suc i. ys ! j \<le> bv"
      using Cons.prems(5) False x by (auto simp: less_Suc_eq)
    from Cons.IH [OF rest _ _ Cons.prems(4) le Cons.prems(6)] i Cons.prems(2) False
    show ?thesis by simp
  qed
qed

lemma scan_best_min:
  assumes "drop i ys = xs" "bi < i" "i \<le> length ys" "ys ! bi = bv"
    "\<forall>j<i. bv \<le> ys ! j" "\<forall>j<bi. bv < ys ! j"
  shows "scan_best (\<lambda>a b. a < b) xs i (bi, bv) < length ys \<and>
         (\<forall>j<length ys. ys ! scan_best (\<lambda>a b. a < b) xs i (bi, bv) \<le> ys ! j) \<and>
         (\<forall>j<scan_best (\<lambda>a b. a < b) xs i (bi, bv).
            ys ! scan_best (\<lambda>a b. a < b) xs i (bi, bv) < ys ! j)"
  using assms
proof (induction xs arbitrary: i bi bv)
  case Nil
  then have "i = length ys" by simp
  with Nil show ?case by simp
next
  case (Cons x xs)
  from Cons.prems(1) have i: "i < length ys"
    by (metis drop_all linorder_not_less list.distinct(1))
  from Cons.prems(1) i have x: "ys ! i = x" and rest: "drop (Suc i) ys = xs"
    by (metis Cons_nth_drop_Suc list.inject)+
  show ?case
  proof (cases "x < bv")
    case True
    have le: "\<forall>j<Suc i. x \<le> ys ! j"
      using Cons.prems(5) True x
      by (auto simp: less_Suc_eq intro: less_imp_le order_less_le_trans)
    have lt: "\<forall>j<i. x < ys ! j"
      using Cons.prems(5) True by (auto intro: order_less_le_trans)
    from Cons.IH [OF rest _ _ x le lt] i True show ?thesis by simp
  next
    case False
    have le: "\<forall>j<Suc i. bv \<le> ys ! j"
      using Cons.prems(5) False x by (auto simp: less_Suc_eq)
    from Cons.IH [OF rest _ _ Cons.prems(4) le Cons.prems(6)] i Cons.prems(2) False
    show ?thesis by simp
  qed
qed

lemma idxmax_first:
  assumes "xs \<noteq> []"
  shows "\<exists>i<length xs. idxmax xs = Inr i \<and> (\<forall>j<length xs. xs ! j \<le> xs ! i) \<and>
           (\<forall>j<i. xs ! j < xs ! i)"
proof -
  obtain x rest where xs: "xs = x # rest" using assms by (cases xs) auto
  have "scan_best (\<lambda>a b. a > b) rest 1 (0, x) < length xs \<and>
        (\<forall>j<length xs. xs ! j \<le> xs ! scan_best (\<lambda>a b. a > b) rest 1 (0, x)) \<and>
        (\<forall>j<scan_best (\<lambda>a b. a > b) rest 1 (0, x).
           xs ! j < xs ! scan_best (\<lambda>a b. a > b) rest 1 (0, x))"
    by (rule scan_best_max) (simp_all add: xs)
  then show ?thesis by (simp add: idxmax_def xs)
qed

lemma idxmin_first:
  assumes "xs \<noteq> []"
  shows "\<exists>i<length xs. idxmin xs = Inr i \<and> (\<forall>j<length xs. xs ! i \<le> xs ! j) \<and>
           (\<forall>j<i. xs ! i < xs ! j)"
proof -
  obtain x rest where xs: "xs = x # rest" using assms by (cases xs) auto
  have "scan_best (\<lambda>a b. a < b) rest 1 (0, x) < length xs \<and>
        (\<forall>j<length xs. xs ! scan_best (\<lambda>a b. a < b) rest 1 (0, x) \<le> xs ! j) \<and>
        (\<forall>j<scan_best (\<lambda>a b. a < b) rest 1 (0, x).
           xs ! scan_best (\<lambda>a b. a < b) rest 1 (0, x) < xs ! j)"
    by (rule scan_best_min) (simp_all add: xs)
  then show ?thesis by (simp add: idxmin_def xs)
qed

lemma Series_max_nth:
  assumes "i < length xs" "\<forall>j<length xs. xs ! j \<le> xs ! i"
  shows "Series_max xs = Finite (xs ! i)"
proof -
  have "Max (set xs) = xs ! i"
  proof (rule Max_eqI)
    show "finite (set xs)" by simp
    show "\<And>y. y \<in> set xs \<Longrightarrow> y \<le> xs ! i" using assms(2) by (auto simp: in_set_conv_nth)
    show "xs ! i \<in> set xs" using assms(1) by simp
  qed
  with assms(1) show ?thesis by (auto simp: Series_max_def)
qed

lemma Series_min_nth:
  assumes "i < length xs" "\<forall>j<length xs. xs ! i \<le> xs ! j"
  shows "Series_min xs = Finite (xs ! i)"
proof -
  have "Min (set xs) = xs ! i"
  proof (rule Min_eqI)
    show "finite (set xs)" by simp
    show "\<And>y. y \<in> set xs \<Longrightarrow> xs ! i \<le> y" using assms(2) by (auto simp: in_set_conv_nth)
    show "xs ! i \<in> set xs" using assms(1) by simp
  qed
  with assms(1) show ?thesis by (auto simp: Series_min_def)
qed

lemma report_highest_first:
  assumes "df \<noteq> []"
  shows "\<exists>i<length df.
     report_highest df =
       Inr (Print_Highest_Temperature (Finite (Temperature (df ! i))) (City (df ! i))) \<and>
     (\<forall>j<length df. Temperature (df ! j) \<le> Temperature (df ! i)) \<and>
     (\<forall>j<i. Temperature (df ! j) < Temperature (df ! i))"
proof -
  let ?ts = "map Temperature df"
  from assms have "?ts \<noteq> []" by simp
  from idxmax_first [OF this] obtain i where i: "i < length df" "idxmax ?ts = Inr i"
    and le: "\<forall>j<length ?ts. ?ts ! j \<le> ?ts ! i" and lt: "\<forall>j<i. ?ts ! j < ?ts ! i"
    by auto
  from i(1) le have mx: "Series_max ?ts = Finite (?ts ! i)"
    by (intro Series_max_nth) simp_all
  have "report_highest df =
      Inr (Print_Highest_Temperature (Finite (Temperature (df ! i))) (City (df ! i)))"
    using i mx by (simp add: report_highest_def loc_def Let_def)
  moreover have "\<forall>j<length df. Temperature (df ! j) \<le> Temperature (df ! i)"
    using le i(1) by simp
  moreover have "\<forall>j<i. Temperature (df ! j) < Temperature (df ! i)"
    using lt i(1) by simp
  ultimately show ?thesis using i(1) by blast
qed

lemma report_lowest_first:
  assumes "df \<noteq> []"
  shows "\<exists>i<length df.
     report_lowest df =
       Inr (Print_Lowest_Temperature (Finite (Temperature (df ! i))) (City (df ! i))) \<and>
     (\<forall>j<length df. Temperature (df ! i) \<le> Temperature (df ! j)) \<and>
     (\<forall>j<i. Temperature (df ! i) < Temperature (df ! j))"
proof -
  let ?ts = "map Temperature df"
  from assms have "?ts \<noteq> []" by simp
  from idxmin_first [OF this] obtain i where i: "i < length df" "idxmin ?ts = Inr i"
    and le: "\<forall>j<length ?ts. ?ts ! i \<le> ?ts ! j" and lt: "\<forall>j<i. ?ts ! i < ?ts ! j"
    by auto
  from i(1) le have mn: "Series_min ?ts = Finite (?ts ! i)"
    by (intro Series_min_nth) simp_all
  have "report_lowest df =
      Inr (Print_Lowest_Temperature (Finite (Temperature (df ! i))) (City (df ! i)))"
    using i mn by (simp add: report_lowest_def loc_def Let_def)
  moreover have "\<forall>j<length df. Temperature (df ! i) \<le> Temperature (df ! j)"
    using le i(1) by simp
  moreover have "\<forall>j<i. Temperature (df ! i) < Temperature (df ! j)"
    using lt i(1) by simp
  ultimately show ?thesis using i(1) by blast
qed





subsection \<open>The script as a whole\<close>

lemma loop_body_quiet:
  "filter is_render (fst (loop_body net c (out, wd))) = filter is_render out \<and>
   filter is_report (fst (loop_body net c (out, wd))) = filter is_report out"
  by (simp add: loop_body_def fetch_weather_data_def Let_def split: sum.splits option.splits)

lemma collect_quiet:
  "filter is_render (fst (collect net cs st)) = filter is_render (fst st) \<and>
   filter is_report (fst (collect net cs st)) = filter is_report (fst st)"
proof (induction cs arbitrary: st)
  case Nil
  then show ?case by simp
next
  case (Cons c cs)
  obtain out wd where st: "st = (out, wd)" by (cases st)
  show ?case
    using loop_body_quiet [of net c out wd] by (simp add: Cons.IH st)
qed

lemma fetch_console_quiet:
  "filter is_render (fetch_console net registry) = [] \<and>
   filter is_report (fetch_console net registry) = []"
  using collect_quiet [of net registry "(header, [])"]
  by (simp add: fetch_console_def header_def)

lemma files_written_append: "files_written (xs @ ys) = files_written xs @ files_written ys"
  by (induction xs rule: files_written.induct) simp_all

lemma files_written_quiet: "filter is_render es = [] \<Longrightarrow> files_written es = []"
  by (induction es rule: files_written.induct) simp_all

lemma collect_pair:
  "collect net registry (header, []) = (fetch_console net registry, weather_table net registry)"
  by (simp add: fetch_console_def weather_table_def)

lemma weather_table_empty_iff:
  "weather_table net registry = [] \<longleftrightarrow> (\<forall>c \<in> set registry. \<not> fetch_succeeds net c)"
proof -
  have "weather_table net registry = [] \<longleftrightarrow> map City (weather_table net registry) = []"
    by simp
  also have "\<dots> \<longleftrightarrow> filter (fetch_succeeds net) registry = []"
    by (simp add: weather_table_City)
  also have "\<dots> \<longleftrightarrow> (\<forall>c \<in> set registry. \<not> fetch_succeeds net c)"
    by (simp add: filter_empty_conv)
  finally show ?thesis .
qed

lemma summary_reporter_nonempty:
  assumes "df \<noteq> []"
  shows "\<exists>t1 c1 t2 c2. summary_reporter df =
     ([Print (CHR 0x0A # rule60), Print ''SUMMARY STATISTICS'', Print rule60,
       Print_Average_Temperature (Series_mean (map Temperature df)),
       Print_Highest_Temperature t1 c1, Print_Lowest_Temperature t2 c2,
       Print_Average_Humidity (Series_mean (map Humidity df)),
       Print_Average_Wind_Speed (Series_mean (map Wind_Speed df)),
       Print_Task_Completed], None)"
proof -
  from report_highest_first [OF assms] obtain t1 c1
    where h: "report_highest df = Inr (Print_Highest_Temperature t1 c1)" by blast
  from report_lowest_first [OF assms] obtain t2 c2
    where l: "report_lowest df = Inr (Print_Lowest_Temperature t2 c2)" by blast
  show ?thesis
    by (simp add: summary_reporter_def h l)
qed

text \<open>
  Claim C3. The table is empty exactly when no fetch succeeds. Then the run prints
  the error line after the fetch console and calls \<open>exit()\<close>: no event of the
  renderer or of the reporter occurs and no file is written. Otherwise the run ends
  normally: after the fetch console come the table, the saved image
  \<open>weather_dashboard.png\<close>, the confirmation, the window and the statistics block,
  whose last line is the completion banner.
\<close>

theorem pipeline_empty_or_complete:
  "(weather_table net registry = [] \<longleftrightarrow> (\<forall>c \<in> set registry. \<not> fetch_succeeds net c)) \<and>
   (weather_table net registry = [] \<longrightarrow>
      pipeline net registry = (fetch_console net registry @ [Print_No_Data], Exit_Called) \<and>
      filter is_render (fst (pipeline net registry)) = [] \<and>
      filter is_report (fst (pipeline net registry)) = [] \<and>
      files_written (fst (pipeline net registry)) = []) \<and>
   (weather_table net registry \<noteq> [] \<longrightarrow>
      snd (pipeline net registry) = Finished \<and>
      fst (pipeline net registry) =
        fetch_console net registry @
        [Print_Data_Fetched (weather_table net registry),
         Save_Fig ''weather_dashboard.png'' (colors (weather_table net registry)),
         Print_Dashboard_Saved, Show] @
        fst (summary_reporter (weather_table net registry)) \<and>
      snd (summary_reporter (weather_table net registry)) = None \<and>
      files_written (fst (pipeline net registry)) = [''weather_dashboard.png''] \<and>
      length (filter is_report (fst (pipeline net registry))) = 6 \<and>
      last (fst (pipeline net registry)) = Print_Task_Completed)"
proof (intro conjI impI)
  show "weather_table net registry = [] \<longleftrightarrow> (\<forall>c \<in> set registry. \<not> fetch_succeeds net c)"
    by (rule weather_table_empty_iff)
next
  assume e: "weather_table net registry = []"
  show p: "pipeline net registry = (fetch_console net registry @ [Print_No_Data], Exit_Called)"
    by (simp add: pipeline_def collect_pair e)
  show "filter is_render (fst (pipeline net registry)) = []"
    by (simp add: p fetch_console_quiet)
  show "filter is_report (fst (pipeline net registry)) = []"
    by (simp add: p fetch_console_quiet)
  show "files_written (fst (pipeline net registry)) = []"
    by (rule files_written_quiet) (simp add: p fetch_console_quiet)
next
  assume ne: "weather_table net registry \<noteq> []"
  let ?df = "weather_table net registry"
  from summary_reporter_nonempty [OF ne] obtain t1 c1 t2 c2 where
    sr: "summary_reporter ?df =
     ([Print (CHR 0x0A # rule60), Print ''SUMMARY STATISTICS'', Print rule60,
       Print_Average_Temperature (Series_mean (map Temperature ?df)),
       Print_Highest_Temperature t1 c1, Print_Lowest_Temperature t2 c2,
       Print_Average_Humidity (Series_mean (map Humidity ?df)),
       Print_Average_Wind_Speed (Series_mean (map Wind_Speed ?df)),
       Print_Task_Completed], None)"
    by blast
  show "snd (pipeline net registry) = Finished"
    by (simp add: pipeline_def collect_pair ne sr)
  show p: "fst (pipeline net registry) =
        fetch_console net registry @
        [Print_Data_Fetched ?df, Save_Fig ''weather_dashboard.png'' (colors ?df),
         Print_Dashboard_Saved, Show] @
        fst (summary_reporter ?df)"
    by (simp add: pipeline_def collect_pair ne sr dashboard_renderer_def)
  show "snd (summary_reporter ?df) = None"
    by (simp add: sr)
  have fw: "files_written (fetch_console net registry) = []"
    by (rule files_written_quiet) (simp add: fetch_console_quiet)
  show "files_written (fst (pipeline net registry)) = [''weather_dashboard.png'']"
    by (simp add: p sr files_written_append fw)
  show "length (filter is_report (fst (pipeline net registry))) = 6"
    by (simp add: p sr fetch_console_quiet)
  show "last (fst (pipeline net registry)) = Print_Task_Completed"
    by (simp add: p sr)
qed

theorem pipeline_empty_or_complete_witness:
  "weather_table net_down cities = [] \<and>
   snd (main net_down) = Exit_Called \<and>
   last (fst (main net_down)) = Print_No_Data \<and>
   filter is_render (fst (main net_down)) = [] \<and>
   filter is_report (fst (main net_down)) = [] \<and>
   files_written (fst (main net_down)) = [] \<and>
   weather_table net_london_only cities \<noteq> [] \<and>
   snd (main net_london_only) = Finished \<and>
   files_written (fst (main net_london_only)) = [''weather_dashboard.png''] \<and>
   last (fst (main net_london_only)) = Print_Task_Completed"
proof -
  have ne: "weather_table net_london_only cities \<noteq> []"
    by (simp add: weather_table_london_only)
  from pipeline_empty_or_complete [of net_down cities] weather_table_down
  have d1: "pipeline net_down cities = (fetch_console net_down cities @ [Print_No_Data], Exit_Called)"
    and d2: "filter is_render (fst (pipeline net_down cities)) = []"
    and d3: "filter is_report (fst (pipeline net_down cities)) = []"
    and d4: "files_written (fst (pipeline net_down cities)) = []"
    by blast+
  from pipeline_empty_or_complete [of net_london_only cities] ne
  have l1: "snd (pipeline net_london_only cities) = Finished"
    and l2: "files_written (fst (pipeline net_london_only cities)) = [''weather_dashboard.png'']"
    and l3: "last (fst (pipeline net_london_only cities)) = Print_Task_Completed"
    by blast+
  have d5: "snd (main net_down) = Exit_Called" "last (fst (main net_down)) = Print_No_Data"
    by (simp_all add: main_def d1)
  show ?thesis
    using weather_table_down ne d2 d3 d4 d5 l1 l2 l3 unfolding main_def by blast
qed

subsection \<open>The colour computation of the temperature panel\<close>

text \<open>
  The divisor \<open>max - min\<close> is zero exactly when all temperatures of the frame
  coincide, so in particular for every frame of one record.
\<close>

lemma colors_divisor_zero_iff:
  assumes "df \<noteq> []"
  shows "colors_divisor df = Finite 0 \<longleftrightarrow> (\<forall>r \<in> set df. Temperature r = Temperature (hd df))"
proof -
  let ?S = "Temperature ` set df"
  have fin: "finite ?S" and ne: "?S \<noteq> {}" using assms by simp_all
  have d: "colors_divisor df = Finite (Max ?S - Min ?S)"
    using assms by (simp add: colors_divisor_def Series_max_def Series_min_def)
  have hd: "Temperature (hd df) \<in> ?S" using assms by simp
  show ?thesis
  proof
    assume "colors_divisor df = Finite 0"
    with d have eq: "Max ?S = Min ?S" by simp
    show "\<forall>r \<in> set df. Temperature r = Temperature (hd df)"
    proof
      fix r assume "r \<in> set df"
      then have r: "Temperature r \<in> ?S" by simp
      have "Min ?S \<le> Temperature r" "Temperature r \<le> Max ?S"
        "Min ?S \<le> Temperature (hd df)" "Temperature (hd df) \<le> Max ?S"
        using fin r hd by simp_all
      with eq show "Temperature r = Temperature (hd df)" by linarith
    qed
  next
    assume all: "\<forall>r \<in> set df. Temperature r = Temperature (hd df)"
    then have "?S = {Temperature (hd df)}" using hd by auto
    then show "colors_divisor df = Finite 0" by (simp add: d)
  qed
qed

text \<open>
  Claim C9 says the divisor is non-zero on every non-empty table. On the runs
  below (only London answers; the scenario \<open>A\<close>, \<open>B\<close> of the specification; all ten
  cities report the same temperature) the table is non-empty, the divisor is 0 and
  every normalised value is the NaN of \<open>0 / 0\<close>.
\<close>

theorem colors_divisor_zero_on_single_record:
  "weather_table net_london_only cities \<noteq> [] \<and>
   colors_divisor (weather_table net_london_only cities) = Finite 0 \<and>
   colors (weather_table net_london_only cities) = [NaN] \<and>
   colors_divisor (weather_table net_AB registry_AB) = Finite 0 \<and>
   colors (weather_table net_AB registry_AB) = [NaN] \<and>
   length (weather_table net_uniform cities) = 10 \<and>
   colors_divisor (weather_table net_uniform cities) = Finite 0 \<and>
   colors (weather_table net_uniform cities) = [NaN, NaN, NaN, NaN, NaN, NaN, NaN, NaN, NaN, NaN]"
proof (intro conjI)
  show "weather_table net_london_only cities \<noteq> []"
    by (simp add: weather_table_london_only)
  show "colors_divisor (weather_table net_london_only cities) = Finite 0"
    by (simp add: weather_table_london_only colors_divisor_def Series_max_def Series_min_def)
  show "colors (weather_table net_london_only cities) = [NaN]"
    by (simp add: weather_table_london_only colors_def Series_max_def Series_min_def
        np_divide_def)
  show "colors_divisor (weather_table net_AB registry_AB) = Finite 0"
    by (simp add: weather_table_AB colors_divisor_def Series_max_def Series_min_def)
  show "colors (weather_table net_AB registry_AB) = [NaN]"
    by (simp add: weather_table_AB colors_def Series_max_def Series_min_def np_divide_def)
  have u: "map Temperature (weather_table net_uniform cities) =
      [15, 15, 15, 15, 15, 15, 15, 15, 15, 15]"
    by (simp add: example_defs run_defs cities_def)
  from arg_cong [OF u, of length] show "length (weather_table net_uniform cities) = 10"
    by simp
  show "colors_divisor (weather_table net_uniform cities) = Finite 0"
    by (simp add: u colors_divisor_def Series_max_def Series_min_def)
  show "colors (weather_table net_uniform cities) =
      [NaN, NaN, NaN, NaN, NaN, NaN, NaN, NaN, NaN, NaN]"
    by (simp add: u colors_def Series_max_def Series_min_def np_divide_def)
qed

end
